theory Spec2Isabelle
  imports Complex_Main "HOL-Library.Sublist" "HOL-Library.AList"
begin

section \<open>The Fibrous provider adapter (fibrous\_provider.py)\<close>

text \<open>
  A shallow embedding of \<^verbatim>\<open>meta_aggregation_api/providers/fibrous_v1/fibrous_provider.py\<close>.
  Python objects that travel through the adapter (parsed JSON bodies, query values,
  keyword context) are values of one datatype; every \<^verbatim>\<open>raise\<close> of the source is an
  \<open>Inl\<close> result; the HTTP session, the JSON parser, the shared classifier of the base
  class, the configuration and the provider name are fields of an environment record,
  since their code is not part of this file.
\<close>

subsection \<open>Python strings\<close>

text \<open>\<^verbatim>\<open>str.lower()\<close> on the ASCII range (token addresses, error messages).\<close>

definition lower_char :: "char \<Rightarrow> char" where
  "lower_char c =
     (case map_of (zip ''ABCDEFGHIJKLMNOPQRSTUVWXYZ'' ''abcdefghijklmnopqrstuvwxyz'') c of
        Some d \<Rightarrow> d
      | None \<Rightarrow> c)"

definition py_lower :: "string \<Rightarrow> string" where
  "py_lower s = map lower_char s"

text \<open>\<^verbatim>\<open>p in s\<close> for strings: \<open>p\<close> occurs in \<open>s\<close> as a contiguous substring.\<close>

fun py_in :: "string \<Rightarrow> string \<Rightarrow> bool" where
  "py_in p [] = (p = [])"
| "py_in p (c # cs) = (prefix p (c # cs) \<or> py_in p cs)"

text \<open>\<^verbatim>\<open>str(n)\<close> for an integer: decimal digits, with a minus sign when negative.\<close>

fun digits :: "nat \<Rightarrow> string" where
  "digits n =
     (if n < 10 then [''0123456789'' ! n]
      else digits (n div 10) @ [''0123456789'' ! (n mod 10)])"

definition str_int :: "int \<Rightarrow> string" where
  "str_int i = (if i < 0 then CHR ''-'' # digits (nat (- i)) else digits (nat i))"

text \<open>The value of a string of ASCII decimal digits.\<close>

definition is_digit :: "char \<Rightarrow> bool" where
  "is_digit c = (c \<in> set ''0123456789'')"

definition digit_val :: "char \<Rightarrow> nat" where
  "digit_val c = (case map_of (zip ''0123456789'' [0, 1, 2, 3, 4, 5, 6, 7, 8, 9]) c of
                    Some d \<Rightarrow> d
                  | None \<Rightarrow> 0)"

definition nat_of_digits :: "string \<Rightarrow> nat" where
  "nat_of_digits s = foldl (\<lambda>acc c. 10 * acc + digit_val c) 0 s"

subsection \<open>Python floats\<close>

text \<open>
  A Python \<^verbatim>\<open>float\<close> is an IEEE-754 binary64 number. \<open>Fin m e\<close> is the finite value
  \<open>m \<sqdot> 2\<^sup>e\<close>; the other constructors are negative zero, the infinities and NaN.
  Conversions and arithmetic round to the nearest binary64 number, ties to even.
\<close>

datatype pyfloat = Fin int int | NegZero | PInf | NInf | NaN

definition fval :: "pyfloat \<Rightarrow> rat" where
  "fval x = (case x of Fin m e \<Rightarrow> of_int m * 2 powi e | _ \<Rightarrow> 0)"

fun bit_length :: "nat \<Rightarrow> nat" where
  "bit_length n = (if n = 0 then 0 else Suc (bit_length (n div 2)))"

text \<open>\<open>\<lfloor>log\<^sub>2 (a / b)\<rfloor>\<close> for positive \<open>a\<close> and \<open>b\<close>.\<close>

definition ilog2_frac :: "nat \<Rightarrow> nat \<Rightarrow> int" where
  "ilog2_frac a b =
     (let k = int (bit_length a) - int (bit_length b)
      in if b * 2 ^ nat k \<le> a * 2 ^ nat (- k) then k else k - 1)"

text \<open>\<open>n / d\<close> rounded to the nearest natural number, ties to the even one.\<close>

definition rne_div :: "nat \<Rightarrow> nat \<Rightarrow> nat" where
  "rne_div n d =
     (let q = n div d; r = n mod d
      in if 2 * r < d then q
         else if d < 2 * r then q + 1
         else if even q then q
         else q + 1)"

text \<open>
  The binary64 number nearest to \<open>a / b\<close> (both positive), as mantissa and exponent:
  53 significant bits, the unit in the last place never below \<open>2\<close> to the \<open>-1074\<close>
  (subnormals); \<open>None\<close> is overflow, a rounded value of \<open>2\<close> to the \<open>1024\<close> or more.
\<close>

definition round_ratio :: "nat \<Rightarrow> nat \<Rightarrow> (nat \<times> int) option" where
  "round_ratio a b =
     (let e = max (ilog2_frac a b - 52) (- 1074);
          m = rne_div (a * 2 ^ nat (- e)) (b * 2 ^ nat e)
      in if 0 \<le> e \<and> 2 ^ 1024 \<le> m * 2 ^ nat e then None else Some (m, e))"

text \<open>The same with a sign: \<open>neg\<close> says that the exact value is \<open>- a / b\<close>.\<close>

definition signed_ratio :: "bool \<Rightarrow> nat \<Rightarrow> nat \<Rightarrow> pyfloat" where
  "signed_ratio neg a b =
     (if a = 0 then (if neg then NegZero else Fin 0 0)
      else case round_ratio a b of
             None \<Rightarrow> if neg then NInf else PInf
           | Some (m, e) \<Rightarrow>
               if m = 0 then (if neg then NegZero else Fin 0 0)
               else Fin (if neg then - int m else int m) e)"

text \<open>The numerator and denominator of \<open>|m| \<sqdot> 2\<^sup>e\<close>.\<close>

definition mag_num :: "int \<Rightarrow> int \<Rightarrow> nat" where
  "mag_num m e = nat \<bar>m\<bar> * 2 ^ nat e"

definition mag_den :: "int \<Rightarrow> nat" where
  "mag_den e = 2 ^ nat (- e)"

text \<open>\<^verbatim>\<open>x > 0\<close>, truthiness (\<^verbatim>\<open>if x:\<close>) and the sign bit.\<close>

definition float_gt_zero :: "pyfloat \<Rightarrow> bool" where
  "float_gt_zero x = (case x of Fin m e \<Rightarrow> 0 < m | PInf \<Rightarrow> True | _ \<Rightarrow> False)"

definition float_truthy :: "pyfloat \<Rightarrow> bool" where
  "float_truthy x = (case x of Fin m e \<Rightarrow> m \<noteq> 0 | NegZero \<Rightarrow> False | _ \<Rightarrow> True)"

definition float_neg :: "pyfloat \<Rightarrow> bool" where
  "float_neg x = (case x of Fin m e \<Rightarrow> m < 0 | NegZero \<Rightarrow> True | NInf \<Rightarrow> True | _ \<Rightarrow> False)"

definition float_is_zero :: "pyfloat \<Rightarrow> bool" where
  "float_is_zero x = (case x of Fin m e \<Rightarrow> m = 0 | NegZero \<Rightarrow> True | _ \<Rightarrow> False)"

definition float_is_inf :: "pyfloat \<Rightarrow> bool" where
  "float_is_inf x = (x = PInf \<or> x = NInf)"

definition signed_zero :: "bool \<Rightarrow> pyfloat" where
  "signed_zero neg = (if neg then NegZero else Fin 0 0)"

definition signed_inf :: "bool \<Rightarrow> pyfloat" where
  "signed_inf neg = (if neg then NInf else PInf)"

text \<open>\<^verbatim>\<open>x * y\<close> on floats; it never raises.\<close>

definition float_mul :: "pyfloat \<Rightarrow> pyfloat \<Rightarrow> pyfloat" where
  "float_mul x y =
     (let neg = (float_neg x \<noteq> float_neg y)
      in if x = NaN \<or> y = NaN then NaN
         else if float_is_inf x \<or> float_is_inf y then
           (if float_is_zero x \<or> float_is_zero y then NaN else signed_inf neg)
         else if float_is_zero x \<or> float_is_zero y then signed_zero neg
         else case (x, y) of
                (Fin m1 e1, Fin m2 e2) \<Rightarrow>
                  signed_ratio neg (mag_num m1 e1 * mag_num m2 e2) (mag_den e1 * mag_den e2)
              | _ \<Rightarrow> NaN)"

text \<open>
  \<^verbatim>\<open>x / y\<close> on floats: \<open>None\<close> is \<^verbatim>\<open>ZeroDivisionError\<close>, raised for every zero divisor.
\<close>

definition float_div :: "pyfloat \<Rightarrow> pyfloat \<Rightarrow> pyfloat option" where
  "float_div x y =
     (let neg = (float_neg x \<noteq> float_neg y)
      in if float_is_zero y then None
         else if x = NaN \<or> y = NaN then Some NaN
         else if float_is_inf x then
           (if float_is_inf y then Some NaN else Some (signed_inf neg))
         else if float_is_inf y \<or> float_is_zero x then Some (signed_zero neg)
         else case (x, y) of
                (Fin m1 e1, Fin m2 e2) \<Rightarrow>
                  Some (signed_ratio neg (mag_num m1 e1 * mag_den e2) (mag_num m2 e2 * mag_den e1))
              | _ \<Rightarrow> Some NaN)"

text \<open>
  \<^verbatim>\<open>float(n)\<close> for an integer: \<open>None\<close> is \<^verbatim>\<open>OverflowError\<close> (int too large to convert
  to float).
\<close>

definition float_of_int :: "int \<Rightarrow> pyfloat option" where
  "float_of_int n =
     (let x = signed_ratio (n < 0) (nat \<bar>n\<bar>) 1
      in if float_is_inf x then None else Some x)"

text \<open>\<^verbatim>\<open>float(s)\<close> for a non-empty string of ASCII digits; it never raises.\<close>

definition float_of_digits :: "string \<Rightarrow> pyfloat" where
  "float_of_digits s = signed_ratio False (nat_of_digits s) 1"

text \<open>
  \<^verbatim>\<open>int(x)\<close> for a float truncates towards zero; infinities raise \<^verbatim>\<open>OverflowError\<close>
  and NaN raises \<^verbatim>\<open>ValueError\<close>.
\<close>

datatype int_of_float_result = IntOk int | IntOverflow | IntNaN

definition int_of_float :: "pyfloat \<Rightarrow> int_of_float_result" where
  "int_of_float x =
     (case x of
        Fin m e \<Rightarrow>
          IntOk (if 0 \<le> e then m * 2 ^ nat e
                 else if 0 \<le> m then m div 2 ^ nat (- e)
                 else - ((- m) div 2 ^ nat (- e)))
      | NegZero \<Rightarrow> IntOk 0
      | PInf \<Rightarrow> IntOverflow
      | NInf \<Rightarrow> IntOverflow
      | NaN \<Rightarrow> IntNaN)"

subsection \<open>Python values, exceptions and the environment\<close>

text \<open>
  Parsed JSON bodies, query parameters and keyword context. A \<^verbatim>\<open>dict\<close> is an
  association list in insertion order with distinct keys.
\<close>

datatype json =
    JNull
  | JBool bool
  | JInt int
  | JFloat pyfloat
  | JStr string
  | JArr "json list"
  | JObj "(string \<times> json) list"

text \<open>\<^verbatim>\<open>d.get(key, default)\<close>.\<close>

definition dict_get :: "(string \<times> json) list \<Rightarrow> string \<Rightarrow> json \<Rightarrow> json" where
  "dict_get d key dflt = (case map_of d key of Some v \<Rightarrow> v | None \<Rightarrow> dflt)"

text \<open>Truthiness of a value (\<^verbatim>\<open>if v:\<close>, \<^verbatim>\<open>a or b\<close>).\<close>

definition py_truthy :: "json \<Rightarrow> bool" where
  "py_truthy v =
     (case v of
        JNull \<Rightarrow> False
      | JBool b \<Rightarrow> b
      | JInt i \<Rightarrow> i \<noteq> 0
      | JFloat x \<Rightarrow> float_truthy x
      | JStr s \<Rightarrow> s \<noteq> []
      | JArr xs \<Rightarrow> xs \<noteq> []
      | JObj d \<Rightarrow> d \<noteq> [])"

text \<open>
  The error classes of \<^verbatim>\<open>meta_aggregation_api.utils.errors\<close> that the adapter names;
  \<open>SharedError\<close> stands for whatever class the classifier of the base provider chooses.
\<close>

datatype error_class =
    AggregationProviderError
  | InsufficientLiquidityError
  | EstimationError
  | SharedError string

record provider_error =
  err_class :: error_class
  err_provider :: string
  err_message :: string
  err_url :: json
  err_kwargs :: "(string \<times> json) list"

record client_response_error =
  cre_request_info :: string
  cre_history :: string
  cre_status :: int
  cre_message :: json
  cre_headers :: string

text \<open>
  The exceptions that cross the adapter. \<open>TimeoutError\<close> is \<^verbatim>\<open>asyncio.TimeoutError\<close>;
  \<open>OtherException\<close> is any other subclass of \<^verbatim>\<open>Exception\<close> that the HTTP session may
  raise (a refused connection, for example); \<open>ProviderError\<close> is a raised
  \<^verbatim>\<open>BaseAggregationProviderError\<close>.
\<close>

datatype py_exception =
    ValueError string
  | TypeError string
  | AttributeError string
  | IndexError string
  | OverflowError string
  | ZeroDivisionError string
  | KeyError string
  | ValidationError string
  | TimeoutError
  | ServerDisconnectedError string
  | ClientResponseError client_response_error
  | OtherException string
  | ProviderError provider_error

definition class_name :: "py_exception \<Rightarrow> string" where
  "class_name e =
     (case e of
        ValueError _ \<Rightarrow> ''ValueError''
      | TypeError _ \<Rightarrow> ''TypeError''
      | AttributeError _ \<Rightarrow> ''AttributeError''
      | IndexError _ \<Rightarrow> ''IndexError''
      | OverflowError _ \<Rightarrow> ''OverflowError''
      | ZeroDivisionError _ \<Rightarrow> ''ZeroDivisionError''
      | KeyError _ \<Rightarrow> ''KeyError''
      | ValidationError _ \<Rightarrow> ''ValidationError''
      | TimeoutError \<Rightarrow> ''TimeoutError''
      | ServerDisconnectedError _ \<Rightarrow> ''ServerDisconnectedError''
      | ClientResponseError _ \<Rightarrow> ''ClientResponseError''
      | OtherException _ \<Rightarrow> ''Exception''
      | ProviderError _ \<Rightarrow> ''BaseAggregationProviderError'')"

text \<open>The HTTP exchange: what the session is asked and what comes back.\<close>

record request =
  req_method :: string
  req_url :: string
  req_params :: "(string \<times> json) list option"
  req_json :: "json option"

text \<open>
  \<open>resp_data\<close> is the body read from the response; \<open>resp_raise_for_status\<close> is what
  \<^verbatim>\<open>response.raise_for_status()\<close> does: nothing (\<open>None\<close>) or raise the given error.
\<close>

record http_response =
  resp_data :: string
  resp_raise_for_status :: "client_response_error option"

datatype http_outcome = Raises py_exception | Responds http_response

text \<open>
  What the adapter uses and this file does not define: the configuration, the provider
  name read from \<^verbatim>\<open>config.json\<close>, the aiohttp session, \<^verbatim>\<open>ujson.loads\<close> (\<open>Inl\<close> is the
  message of the \<^verbatim>\<open>ValueError\<close> it raises), \<^verbatim>\<open>handle_exception\<close> of the base provider,
  \<^verbatim>\<open>str\<close> of an exception, \<^verbatim>\<open>float\<close> of a string that is not all digits (\<open>None\<close> is
  \<^verbatim>\<open>ValueError\<close>), \<^verbatim>\<open>repr\<close> of a finite float and of containers.
\<close>

record env =
  NATIVE_TOKEN_ADDRESS :: string
  PROVIDER_NAME :: string
  http :: "request \<Rightarrow> http_outcome"
  ujson_loads :: "string \<Rightarrow> string + json"
  base_handle_exception :: "py_exception \<Rightarrow> (string \<times> json) list \<Rightarrow> provider_error option"
  str_exception :: "py_exception \<Rightarrow> string"
  float_of_other_str :: "string \<Rightarrow> pyfloat option"
  repr_finite :: "rat \<Rightarrow> string"
  repr_container :: "json \<Rightarrow> string"

text \<open>\<^verbatim>\<open>str(x)\<close> for a float and for any value.\<close>

definition str_float :: "env \<Rightarrow> pyfloat \<Rightarrow> string" where
  "str_float env x =
     (case x of
        Fin m e \<Rightarrow> repr_finite env (of_int m * 2 powi e)
      | NegZero \<Rightarrow> ''-0.0''
      | PInf \<Rightarrow> ''inf''
      | NInf \<Rightarrow> ''-inf''
      | NaN \<Rightarrow> ''nan'')"

definition py_str :: "env \<Rightarrow> json \<Rightarrow> string" where
  "py_str env v =
     (case v of
        JNull \<Rightarrow> ''None''
      | JBool b \<Rightarrow> (if b then ''True'' else ''False'')
      | JInt i \<Rightarrow> str_int i
      | JFloat x \<Rightarrow> str_float env x
      | JStr s \<Rightarrow> s
      | JArr xs \<Rightarrow> repr_container env v
      | JObj d \<Rightarrow> repr_container env v)"

text \<open>
  \<^verbatim>\<open>float(v)\<close>: a string is parsed, an integer converted (\<^verbatim>\<open>OverflowError\<close> when too
  large), a bool is 1.0 or 0.0, anything else is a \<^verbatim>\<open>TypeError\<close>.
\<close>

definition py_float :: "env \<Rightarrow> json \<Rightarrow> py_exception + pyfloat" where
  "py_float env v =
     (case v of
        JStr s \<Rightarrow>
          if s \<noteq> [] \<and> list_all is_digit s then Inr (float_of_digits s)
          else (case float_of_other_str env s of
                  None \<Rightarrow> Inl (ValueError ''could not convert string to float'')
                | Some x \<Rightarrow> Inr x)
      | JInt i \<Rightarrow>
          (case float_of_int i of
             None \<Rightarrow> Inl (OverflowError ''int too large to convert to float'')
           | Some x \<Rightarrow> Inr x)
      | JFloat x \<Rightarrow> Inr x
      | JBool b \<Rightarrow> Inr (if b then Fin 1 0 else Fin 0 0)
      | _ \<Rightarrow> Inl (TypeError ''float() argument must be a string or a real number''))"

subsection \<open>Module constants\<close>

definition CHAIN_ID_TO_API_BASE :: "(int \<times> string) list" where
  "CHAIN_ID_TO_API_BASE = [(8453, ''base''), (534352, ''scroll''), (999, ''hyperevm'')]"

definition FIBROUS_ERRORS :: "(string \<times> error_class) list" where
  "FIBROUS_ERRORS =
     [(''insufficient liquidity'', InsufficientLiquidityError),
      (''insufficient balance'', InsufficientLiquidityError),
      (''cannot estimate'', EstimationError),
      (''no route found'', InsufficientLiquidityError)]"

definition FIBROUS_API_BASE :: string where
  "FIBROUS_API_BASE = ''https://api.fibrous.finance/base''"

definition FIBROUS_API_SCROLL :: string where
  "FIBROUS_API_SCROLL = ''https://api.fibrous.finance/scroll''"

definition FIBROUS_API_HYPEREVM :: string where
  "FIBROUS_API_HYPEREVM = ''https://api.fibrous.finance/hyperevm''"

subsection \<open>\_get\_api\_base\_url\<close>

definition unsupported_chain :: "int \<Rightarrow> py_exception" where
  "unsupported_chain chain_id =
     ValueError (''Fibrous does not support chain_id '' @ str_int chain_id)"

definition get_api_base_url :: "int \<Rightarrow> py_exception + string" where
  "get_api_base_url chain_id =
     (case map_of CHAIN_ID_TO_API_BASE chain_id of
        None \<Rightarrow> Inl (unsupported_chain chain_id)
      | Some chain_name \<Rightarrow>
          if chain_name = [] then Inl (unsupported_chain chain_id)
          else if chain_id = 8453 then Inr FIBROUS_API_BASE
          else if chain_id = 534352 then Inr FIBROUS_API_SCROLL
          else if chain_id = 999 then Inr FIBROUS_API_HYPEREVM
          else Inl (unsupported_chain chain_id))"

subsection \<open>\_make\_request\<close>

text \<open>
  The result is the list of requests sent to the session (one) and what the call
  returns or raises.
\<close>

definition normalize_status :: "int \<Rightarrow> int" where
  "normalize_status s = (if \<not> (100 \<le> s \<and> s < 600) then 500 else s)"

text \<open>
  The handler of \<^verbatim>\<open>raise_for_status\<close>: the status is normalised, the parsed body gets a
  \<^verbatim>\<open>source\<close> entry (a \<^verbatim>\<open>TypeError\<close> when the body is not a dict) and a new error is
  raised with the body as its message.
\<close>

definition proxied_error :: "client_response_error \<Rightarrow> json \<Rightarrow> py_exception" where
  "proxied_error e data =
     (let status = normalize_status (cre_status e)
      in case data of
           JObj d \<Rightarrow>
             ClientResponseError
               \<lparr>cre_request_info = cre_request_info e,
                cre_history = cre_history e,
                cre_status = status,
                cre_message = JArr [JObj (AList.update ''source'' (JStr ''proxied Fibrous API'') d)],
                cre_headers = cre_headers e\<rparr>
         | _ \<Rightarrow> TypeError ''object does not support item assignment'')"

text \<open>
  Reading a response: an empty body is an empty dict, whatever the status; otherwise the
  body is parsed (a \<^verbatim>\<open>ValueError\<close> of the parser is not handled here) and the status
  checked.
\<close>

definition read_response :: "env \<Rightarrow> http_response \<Rightarrow> py_exception + json" where
  "read_response env response =
     (if resp_data response = [] then Inr (JObj [])
      else case ujson_loads env (resp_data response) of
             Inl err \<Rightarrow> Inl (ValueError err)
           | Inr data \<Rightarrow>
               (case resp_raise_for_status response of
                  None \<Rightarrow> Inr data
                | Some e \<Rightarrow> Inl (proxied_error e data)))"

definition mk_request ::
  "string \<Rightarrow> (string \<times> json) list option \<Rightarrow> string \<Rightarrow> json option \<Rightarrow> request" where
  "mk_request url params method body =
     \<lparr>req_method = py_lower method, req_url = url, req_params = params, req_json = body\<rparr>"

definition make_request ::
  "env \<Rightarrow> string \<Rightarrow> (string \<times> json) list option \<Rightarrow> string \<Rightarrow> json option
     \<Rightarrow> request list \<times> (py_exception + json)" where
  "make_request env url params method body =
     ([mk_request url params method body],
      (case http env (mk_request url params method body) of
         Raises e \<Rightarrow> Inl e
       | Responds response \<Rightarrow> read_response env response))"

subsection \<open>handle\_exception\<close>

text \<open>
  The message the classifier works on: \<^verbatim>\<open>str(exception)\<close>, or for a
  \<^verbatim>\<open>ClientResponseError\<close> whose message is a list starting with a dict, the \<^verbatim>\<open>error\<close>
  entry of that dict, else its \<^verbatim>\<open>message\<close> entry, else \<^verbatim>\<open>str(exception)\<close>.
  Indexing an empty list raises \<^verbatim>\<open>IndexError\<close>.
\<close>

definition extract_msg :: "env \<Rightarrow> py_exception \<Rightarrow> py_exception + json" where
  "extract_msg env exception =
     (let msg = JStr (str_exception env exception)
      in case exception of
           ClientResponseError c \<Rightarrow>
             (case cre_message c of
                JArr [] \<Rightarrow> Inl (IndexError ''list index out of range'')
              | JArr (JObj d # _) \<Rightarrow> Inr (dict_get d ''error'' (dict_get d ''message'' msg))
              | _ \<Rightarrow> Inr msg)
         | _ \<Rightarrow> Inr msg)"

text \<open>
  The loop over \<^verbatim>\<open>FIBROUS_ERRORS.items()\<close>: the first pattern found in the message wins.
\<close>

fun match_error :: "(string \<times> error_class) list \<Rightarrow> string \<Rightarrow> error_class" where
  "match_error [] msg = AggregationProviderError"
| "match_error ((error_pattern, error_cls) # rest) msg =
     (if py_in (py_lower error_pattern) (py_lower msg) then error_cls
      else match_error rest msg)"

text \<open>
  \<open>Inr\<close> is the error object that \<^verbatim>\<open>handle_exception\<close> returns, \<open>Inl\<close> an exception raised
  inside it: \<^verbatim>\<open>msg.lower()\<close> on a message that is not a string, and the constructor call
  \<^verbatim>\<open>error_class(..., url=kwargs.get('url', ''), **kwargs)\<close>, which passes \<^verbatim>\<open>url\<close> twice
  when the context has a \<^verbatim>\<open>url\<close> entry.
\<close>

definition classify_msg ::
  "env \<Rightarrow> json \<Rightarrow> (string \<times> json) list \<Rightarrow> py_exception + provider_error" where
  "classify_msg env m kwargs =
     (case m of
        JStr msg \<Rightarrow>
          (let error_class = match_error FIBROUS_ERRORS msg
           in if map_of kwargs ''url'' \<noteq> None
              then Inl (TypeError ''got multiple values for keyword argument url'')
              else Inr \<lparr>err_class = error_class,
                        err_provider = PROVIDER_NAME env,
                        err_message = msg,
                        err_url = dict_get kwargs ''url'' (JStr ''''),
                        err_kwargs = kwargs\<rparr>)
      | _ \<Rightarrow> Inl (AttributeError ''object has no attribute lower''))"

definition handle_exception ::
  "env \<Rightarrow> py_exception \<Rightarrow> (string \<times> json) list \<Rightarrow> py_exception + provider_error" where
  "handle_exception env exception kwargs =
     (case base_handle_exception env exception kwargs of
        Some exc \<Rightarrow> Inr exc
      | None \<Rightarrow>
          (case extract_msg env exception of
             Inl e \<Rightarrow> Inl e
           | Inr m \<Rightarrow> classify_msg env m kwargs))"

text \<open>\<^verbatim>\<open>exc = self.handle_exception(e, ...); raise exc\<close>.\<close>

definition raise_handled ::
  "env \<Rightarrow> py_exception \<Rightarrow> (string \<times> json) list \<Rightarrow> py_exception" where
  "raise_handled env e kwargs =
     (case handle_exception env e kwargs of Inl e' \<Rightarrow> e' | Inr exc \<Rightarrow> ProviderError exc)"

subsection \<open>Building a request: query and slippage\<close>

text \<open>
  \<^verbatim>\<open>if slippage_percentage: query['slippage'] = int(slippage_percentage * 10000)\<close>.
  The product is a float product (the integer 10000 is converted to 10000.0); \<^verbatim>\<open>int\<close>
  raises on NaN and on the infinities. \<open>Inr None\<close> means that no entry is added.
\<close>

definition slippage_param :: "pyfloat option \<Rightarrow> py_exception + json option" where
  "slippage_param slippage_percentage =
     (case slippage_percentage of
        None \<Rightarrow> Inr None
      | Some x \<Rightarrow>
          if float_truthy x then
            (case int_of_float (float_mul x (Fin 10000 0)) of
               IntOk i \<Rightarrow> Inr (Some (JInt i))
             | IntOverflow \<Rightarrow> Inl (OverflowError ''cannot convert float infinity to integer'')
             | IntNaN \<Rightarrow> Inl (ValueError ''cannot convert float NaN to integer''))
          else Inr None)"

definition with_slippage :: "(string \<times> json) list \<Rightarrow> json option \<Rightarrow> (string \<times> json) list" where
  "with_slippage query s = (case s of None \<Rightarrow> query | Some v \<Rightarrow> AList.update ''slippage'' v query)"

definition price_query :: "string \<Rightarrow> string \<Rightarrow> int \<Rightarrow> (string \<times> json) list" where
  "price_query sell_token buy_token sell_amount =
     [(''tokenInAddress'', JStr sell_token),
      (''tokenOutAddress'', JStr buy_token),
      (''amount'', JStr (str_int sell_amount))]"

definition quote_query :: "string \<Rightarrow> string \<Rightarrow> int \<Rightarrow> string \<Rightarrow> (string \<times> json) list" where
  "quote_query sell_token buy_token sell_amount taker_address =
     [(''tokenInAddress'', JStr sell_token),
      (''tokenOutAddress'', JStr buy_token),
      (''amount'', JStr (str_int sell_amount)),
      (''userAddress'', JStr taker_address)]"

text \<open>The two \<^verbatim>\<open>except\<close> clauses of the lookups.\<close>

definition caught_transport :: "py_exception \<Rightarrow> bool" where
  "caught_transport e =
     (case e of
        ClientResponseError _ \<Rightarrow> True
      | TimeoutError \<Rightarrow> True
      | ServerDisconnectedError _ \<Rightarrow> True
      | _ \<Rightarrow> False)"

definition caught_transform :: "py_exception \<Rightarrow> bool" where
  "caught_transform e =
     (case e of
        KeyError _ \<Rightarrow> True
      | ValidationError _ \<Rightarrow> True
      | ValueError _ \<Rightarrow> True
      | _ \<Rightarrow> False)"

subsection \<open>Transforming a response\<close>

text \<open>
  The price: \<^verbatim>\<open>float(output_amount) / float(sell_amount)\<close> when the latter is positive,
  else the integer \<^verbatim>\<open>0\<close>.
\<close>

definition calc_price :: "env \<Rightarrow> int \<Rightarrow> json \<Rightarrow> py_exception + json" where
  "calc_price env sell_amount output_amount =
     (case float_of_int sell_amount of
        None \<Rightarrow> Inl (OverflowError ''int too large to convert to float'')
      | Some sell_amount_float \<Rightarrow>
          (case py_float env output_amount of
             Inl e \<Rightarrow> Inl e
           | Inr buy_amount_float \<Rightarrow>
               if float_gt_zero sell_amount_float then
                 (case float_div buy_amount_float sell_amount_float of
                    None \<Rightarrow> Inl (ZeroDivisionError ''float division by zero'')
                  | Some q \<Rightarrow> Inr (JFloat q))
               else Inr (JInt 0)))"

record swap_sources =
  src_name :: json
  src_proportion :: json

fun route_steps :: "json list \<Rightarrow> py_exception + swap_sources list" where
  "route_steps [] = Inr []"
| "route_steps (step # rest) =
     (case step of
        JObj d \<Rightarrow>
          (case route_steps rest of
             Inl e \<Rightarrow> Inl e
           | Inr sources \<Rightarrow>
               Inr (\<lparr>src_name = dict_get d ''protocol'' (JStr ''Unknown''),
                     src_proportion = dict_get d ''percent'' (JInt 100)\<rparr> # sources))
      | _ \<Rightarrow> Inl (AttributeError ''object has no attribute get''))"

text \<open>
  \<^verbatim>\<open>if route: for step in route: ...\<close>. Iterating a string or a dict yields strings, which
  have no \<^verbatim>\<open>get\<close>; a number or a bool is not iterable.
\<close>

definition route_sources :: "json \<Rightarrow> py_exception + swap_sources list" where
  "route_sources route =
     (if py_truthy route then
        (case route of
           JArr steps \<Rightarrow> route_steps steps
         | JStr s \<Rightarrow> Inl (AttributeError ''object has no attribute get'')
         | JObj d \<Rightarrow> Inl (AttributeError ''object has no attribute get'')
         | _ \<Rightarrow> Inl (TypeError ''object is not iterable''))
      else Inr [])"

definition str_gas_price :: "int option \<Rightarrow> string" where
  "str_gas_price gas_price =
     (case gas_price of None \<Rightarrow> ''0'' | Some g \<Rightarrow> if g \<noteq> 0 then str_int g else ''0'')"

record price_response =
  pr_provider :: string
  pr_sources :: "swap_sources list"
  pr_buy_amount :: string
  pr_gas :: string
  pr_sell_amount :: string
  pr_gas_price :: string
  pr_value :: string
  pr_price :: string
  pr_allowance_target :: "string option"

record quote_response =
  q_sources :: "swap_sources list"
  q_buy_amount :: string
  q_gas :: string
  q_sell_amount :: string
  q_to :: json
  q_data :: json
  q_gas_price :: string
  q_value :: string
  q_price :: string

text \<open>The body of the second \<^verbatim>\<open>try\<close> of \<^verbatim>\<open>get_swap_price\<close>.\<close>

definition price_of_response ::
  "env \<Rightarrow> string \<Rightarrow> int \<Rightarrow> int option \<Rightarrow> json \<Rightarrow> py_exception + price_response" where
  "price_of_response env sell_token sell_amount gas_price response =
     (case response of
        JObj d \<Rightarrow>
          (let output_amount = dict_get d ''outputAmount'' (JStr ''0'');
               estimated_gas = dict_get d ''estimatedGas'' (JStr ''0'')
           in case calc_price env sell_amount output_amount of
                Inl e \<Rightarrow> Inl e
              | Inr price \<Rightarrow>
                  (let value = (if py_lower sell_token = NATIVE_TOKEN_ADDRESS env
                                then str_int sell_amount else ''0'')
                   in case route_sources (dict_get d ''route'' (JArr [])) of
                        Inl e \<Rightarrow> Inl e
                      | Inr sources \<Rightarrow>
                          Inr \<lparr>pr_provider = PROVIDER_NAME env,
                               pr_sources = sources,
                               pr_buy_amount = py_str env output_amount,
                               pr_gas = py_str env estimated_gas,
                               pr_sell_amount = str_int sell_amount,
                               pr_gas_price = str_gas_price gas_price,
                               pr_value = value,
                               pr_price = py_str env price,
                               pr_allowance_target = None\<rparr>))
      | _ \<Rightarrow> Inl (AttributeError ''object has no attribute get''))"

text \<open>The body of the second \<^verbatim>\<open>try\<close> of \<^verbatim>\<open>get_swap_quote\<close>.\<close>

definition quote_of_response ::
  "env \<Rightarrow> int \<Rightarrow> int option \<Rightarrow> json \<Rightarrow> py_exception + quote_response" where
  "quote_of_response env sell_amount gas_price response =
     (case response of
        JObj d \<Rightarrow>
          (let calldata = dict_get d ''calldata'' (JStr ''0x'');
               to_address = dict_get d ''to'' (JStr '''');
               value = dict_get d ''value'' (JStr ''0'');
               output_amount = dict_get d ''outputAmount'' (JStr ''0'');
               estimated_gas = dict_get d ''estimatedGas'' (JStr ''0'')
           in case calc_price env sell_amount output_amount of
                Inl e \<Rightarrow> Inl e
              | Inr price \<Rightarrow>
                  (case route_sources (dict_get d ''route'' (JArr [])) of
                     Inl e \<Rightarrow> Inl e
                   | Inr sources \<Rightarrow>
                       Inr \<lparr>q_sources = sources,
                            q_buy_amount = py_str env output_amount,
                            q_gas = py_str env estimated_gas,
                            q_sell_amount = str_int sell_amount,
                            q_to = to_address,
                            q_data = calldata,
                            q_gas_price = str_gas_price gas_price,
                            q_value = py_str env value,
                            q_price = py_str env price\<rparr>))
      | _ \<Rightarrow> Inl (AttributeError ''object has no attribute get''))"

subsection \<open>get\_swap\_price\<close>

text \<open>
  The arguments \<^verbatim>\<open>taker_address\<close>, \<^verbatim>\<open>fee_recipient\<close>, \<^verbatim>\<open>buy_token_percentage_fee\<close> and
  \<^verbatim>\<open>**kwargs\<close> are not used by the source and are left out. The result is the list of
  requests sent and what the call returns or raises.
\<close>

definition price_request_failed ::
  "env \<Rightarrow> string \<Rightarrow> int \<Rightarrow> (string \<times> json) list \<Rightarrow> py_exception \<Rightarrow> py_exception" where
  "price_request_failed env sell_token chain_id query e =
     (if caught_transport e then
        raise_handled env e
          [(''params'', JObj query), (''token_address'', JStr sell_token),
           (''chain_id'', JInt chain_id)]
      else e)"

definition price_transform_failed ::
  "env \<Rightarrow> json \<Rightarrow> string \<Rightarrow> (string \<times> json) list \<Rightarrow> int \<Rightarrow> py_exception \<Rightarrow> py_exception" where
  "price_transform_failed env response url query chain_id e =
     (if caught_transform e then
        raise_handled env e
          [(''response'', response), (''method'', JStr ''get_swap_price''),
           (''url'', JStr url), (''params'', JObj query), (''chain_id'', JInt chain_id)]
      else e)"

definition get_swap_price ::
  "env \<Rightarrow> string \<Rightarrow> string \<Rightarrow> int \<Rightarrow> int \<Rightarrow> int option \<Rightarrow> pyfloat option
     \<Rightarrow> request list \<times> (py_exception + price_response)" where
  "get_swap_price env buy_token sell_token sell_amount chain_id gas_price slippage_percentage =
     (case get_api_base_url chain_id of
        Inl e \<Rightarrow> ([], Inl e)
      | Inr api_base \<Rightarrow>
          (case slippage_param slippage_percentage of
             Inl e \<Rightarrow> ([], Inl e)
           | Inr s \<Rightarrow>
               (let url = api_base @ ''/route'';
                    query = with_slippage (price_query sell_token buy_token sell_amount) s
                in case make_request env url (Some query) ''GET'' None of
                     (calls, Inl e) \<Rightarrow>
                       (calls, Inl (price_request_failed env sell_token chain_id query e))
                   | (calls, Inr response) \<Rightarrow>
                       (case price_of_response env sell_token sell_amount gas_price response of
                          Inl e \<Rightarrow>
                            (calls, Inl (price_transform_failed env response url query chain_id e))
                        | Inr res \<Rightarrow> (calls, Inr res)))))"

subsection \<open>get\_swap\_quote\<close>

definition quote_request_failed ::
  "env \<Rightarrow> string \<Rightarrow> int \<Rightarrow> string \<Rightarrow> (string \<times> json) list \<Rightarrow> py_exception
     \<Rightarrow> py_exception" where
  "quote_request_failed env sell_token chain_id taker_address query e =
     (if caught_transport e then
        raise_handled env e
          [(''params'', JObj query), (''token_address'', JStr sell_token),
           (''chain_id'', JInt chain_id), (''wallet'', JStr taker_address)]
      else e)"

definition quote_transform_failed ::
  "env \<Rightarrow> json \<Rightarrow> string \<Rightarrow> (string \<times> json) list \<Rightarrow> int \<Rightarrow> py_exception \<Rightarrow> py_exception" where
  "quote_transform_failed env response url query chain_id e =
     (if caught_transform e then
        raise_handled env e
          [(''response'', response), (''method'', JStr ''get_swap_quote''),
           (''url'', JStr url), (''params'', JObj query), (''chain_id'', JInt chain_id)]
      else e)"

text \<open>The part of \<^verbatim>\<open>get_swap_quote\<close> after the check of \<^verbatim>\<open>taker_address\<close>.\<close>

definition quote_lookup ::
  "env \<Rightarrow> string \<Rightarrow> string \<Rightarrow> int \<Rightarrow> int \<Rightarrow> string \<Rightarrow> int option \<Rightarrow> pyfloat option
     \<Rightarrow> request list \<times> (py_exception + quote_response)" where
  "quote_lookup env buy_token sell_token sell_amount chain_id taker_address gas_price
       slippage_percentage =
     (case get_api_base_url chain_id of
        Inl e \<Rightarrow> ([], Inl e)
      | Inr api_base \<Rightarrow>
          (case slippage_param slippage_percentage of
             Inl e \<Rightarrow> ([], Inl e)
           | Inr s \<Rightarrow>
               (let url = api_base @ ''/calldata'';
                    query = with_slippage
                      (quote_query sell_token buy_token sell_amount taker_address) s
                in case make_request env url (Some query) ''GET'' None of
                     (calls, Inl e) \<Rightarrow>
                       (calls, Inl (quote_request_failed env sell_token chain_id
                                      taker_address query e))
                   | (calls, Inr response) \<Rightarrow>
                       (case quote_of_response env sell_amount gas_price response of
                          Inl e \<Rightarrow>
                            (calls, Inl (quote_transform_failed env response url query chain_id e))
                        | Inr quote \<Rightarrow> (calls, Inr quote)))))"

text \<open>
  \<^verbatim>\<open>if not taker_address: raise ValueError(...)\<close>: the address is \<^verbatim>\<open>None\<close> or the empty
  string.
\<close>

definition taker_required :: py_exception where
  "taker_required = ValueError ''taker_address is required for Fibrous quote''"

definition get_swap_quote ::
  "env \<Rightarrow> string \<Rightarrow> string \<Rightarrow> int \<Rightarrow> int \<Rightarrow> string option \<Rightarrow> int option \<Rightarrow> pyfloat option
     \<Rightarrow> request list \<times> (py_exception + quote_response)" where
  "get_swap_quote env buy_token sell_token sell_amount chain_id taker_address gas_price
       slippage_percentage =
     (case taker_address of
        None \<Rightarrow> ([], Inl taker_required)
      | Some taker \<Rightarrow>
          if taker = [] then ([], Inl taker_required)
          else quote_lookup env buy_token sell_token sell_amount chain_id taker gas_price
                 slippage_percentage)"

subsection \<open>health\_check\<close>




subsection \<open>Sample environments\<close>

text \<open>
  An environment whose session answers every request in the same way and whose parser
  returns the same result for every body; the shared classifier recognises nothing.
  The concrete instances of the theorems below are stated in it.
\<close>

definition sample_env :: "http_outcome \<Rightarrow> string + json \<Rightarrow> env" where
  "sample_env outcome parsed =
     \<lparr>NATIVE_TOKEN_ADDRESS = ''0xeeeeeeeeeeeeeeeeeeeeeeeeeeeeeeeeeeeeeeee'',
      PROVIDER_NAME = ''Fibrous'',
      http = (\<lambda>req. outcome),
      ujson_loads = (\<lambda>data. parsed),
      base_handle_exception = (\<lambda>e kwargs. None),
      str_exception = class_name,
      float_of_other_str = (\<lambda>s. None),
      repr_finite = (\<lambda>q. ''float''),
      repr_container = (\<lambda>v. ''container'')\<rparr>"

definition http_ok :: http_outcome where
  "http_ok = Responds \<lparr>resp_data = ''body'', resp_raise_for_status = None\<rparr>"

definition http_failed :: "int \<Rightarrow> http_outcome" where
  "http_failed s =
     Responds \<lparr>resp_data = ''body'',
               resp_raise_for_status =
                 Some \<lparr>cre_request_info = ''info'', cre_history = '''', cre_status = s,
                       cre_message = JStr ''Error'', cre_headers = ''''\<rparr>\<rparr>"

text \<open>A body of the route endpoint, as the parser returns it.\<close>

definition sample_body :: json where
  "sample_body =
     JObj [(''outputAmount'', JStr ''2000000''), (''estimatedGas'', JStr ''150000''),
           (''route'', JArr [JObj [(''protocol'', JStr ''UniV3''), (''percent'', JInt 100)]])]"

section \<open>Evaluation on numerals\<close>

text \<open>
  The recursive equations of \<open>digits\<close> and \<open>bit_length\<close> are used on numerals only.
\<close>

declare digits.simps [simp del]

lemma digits_numeral [simp]:
  "digits (numeral k) =
     (if (numeral k :: nat) < 10 then [''0123456789'' ! numeral k]
      else digits (numeral k div 10) @ [''0123456789'' ! (numeral k mod 10)])"
  by (rule digits.simps)

lemma digits_0 [simp]: "digits 0 = ''0''"
  by (simp add: digits.simps)

lemma digits_1 [simp]: "digits (Suc 0) = ''1''"
  by (simp add: digits.simps)

declare bit_length.simps [simp del]

lemma bit_length_0 [simp]: "bit_length 0 = 0"
  by (simp add: bit_length.simps)

lemma bit_length_1 [simp]: "bit_length (Suc 0) = Suc 0"
  by (simp add: bit_length.simps [of "Suc 0"] bit_length.simps [of 0])

lemma bit_length_numeral [simp]:
  "bit_length (numeral k) = Suc (bit_length (numeral k div 2))"
  by (subst bit_length.simps) simp

section \<open>Endpoint resolution\<close>

lemma get_api_base_url_cases:
  "get_api_base_url chain_id =
     (if chain_id = 8453 then Inr FIBROUS_API_BASE
      else if chain_id = 534352 then Inr FIBROUS_API_SCROLL
      else if chain_id = 999 then Inr FIBROUS_API_HYPEREVM
      else Inl (unsupported_chain chain_id))"
  by (simp add: get_api_base_url_def CHAIN_ID_TO_API_BASE_def)

text \<open>
  Claim C3, as the code has it. For each chain id of 8453, 534352 and 999 the resolver
  returns a non-empty URL that no other chain id resolves to. For every other chain id it
  raises Python's built-in \<^verbatim>\<open>ValueError\<close> with the message
  \<^verbatim>\<open>Fibrous does not support chain_id <id>\<close>: a generic exception, not an error kind
  of its own.
\<close>

theorem base_url_resolution:
  "(chain_id \<in> {8453, 534352, 999} \<longrightarrow>
      (\<exists>url. get_api_base_url chain_id = Inr url \<and> url \<noteq> [] \<and>
             (\<forall>other. other \<noteq> chain_id \<longrightarrow> get_api_base_url other \<noteq> Inr url))) \<and>
   (chain_id \<notin> {8453, 534352, 999} \<longrightarrow>
      get_api_base_url chain_id =
        Inl (ValueError (''Fibrous does not support chain_id '' @ str_int chain_id)))"
  by (simp add: get_api_base_url_cases unsupported_chain_def FIBROUS_API_BASE_def
      FIBROUS_API_SCROLL_def FIBROUS_API_HYPEREVM_def)

theorem base_url_resolution_witness:
  "get_api_base_url 534352 = Inr ''https://api.fibrous.finance/scroll'' \<and>
   get_api_base_url 1 = Inl (ValueError ''Fibrous does not support chain_id 1'')"
  using base_url_resolution [of 534352] base_url_resolution [of 1]
  by (simp add: get_api_base_url_cases FIBROUS_API_SCROLL_def str_int_def)

text \<open>
  Claim C3 as stated fails: the error raised for the unsupported chain id 1 is a
  \<^verbatim>\<open>ValueError\<close>, the class that \<^verbatim>\<open>get_swap_quote\<close> raises for a missing taker address
  on a supported chain, so a caller cannot tell an unsupported chain by the kind of the
  error.
\<close>

theorem unsupported_chain_not_distinct:
  "get_api_base_url 1 = Inl (ValueError ''Fibrous does not support chain_id 1'') \<and>
   snd (get_swap_quote (sample_env http_ok (Inr (JObj []))) ''0xb'' ''0xa'' 1000 8453
          None None None)
     = Inl (ValueError ''taker_address is required for Fibrous quote'') \<and>
   class_name (ValueError ''Fibrous does not support chain_id 1'')
     = class_name (ValueError ''taker_address is required for Fibrous quote'')"
  by (simp add: get_api_base_url_cases unsupported_chain_def str_int_def get_swap_quote_def
      taker_required_def class_name_def)

section \<open>The taker address of a quote\<close>

text \<open>
  Claim C7. With a taker address that is \<^verbatim>\<open>None\<close> or empty, \<^verbatim>\<open>get_swap_quote\<close> sends no
  request and raises the \<^verbatim>\<open>ValueError\<close> of the check, whatever the chain id (the
  endpoint is not resolved first) and whatever the session would answer; the error is
  not an error object of the classifier.
\<close>

theorem quote_requires_taker:
  assumes "taker_address = None \<or> taker_address = Some []"
  shows "fst (get_swap_quote env buy_token sell_token sell_amount chain_id taker_address
                gas_price slippage_percentage) = [] \<and>
         snd (get_swap_quote env buy_token sell_token sell_amount chain_id taker_address
                gas_price slippage_percentage)
           = Inl (ValueError ''taker_address is required for Fibrous quote'') \<and>
         (\<forall>exc. snd (get_swap_quote env buy_token sell_token sell_amount chain_id
                        taker_address gas_price slippage_percentage)
                  \<noteq> Inl (ProviderError exc))"
  using assms by (auto simp: get_swap_quote_def taker_required_def)

theorem quote_requires_taker_witness:
  "fst (get_swap_quote (sample_env http_ok (Inr (JObj []))) ''0xb'' ''0xa'' 1000 1
          (Some '''') None None) = [] \<and>
   snd (get_swap_quote (sample_env http_ok (Inr (JObj []))) ''0xb'' ''0xa'' 1000 1
          (Some '''') None None)
     = Inl (ValueError ''taker_address is required for Fibrous quote'')"
  using quote_requires_taker [of "Some ''''" "sample_env http_ok (Inr (JObj []))"
      "''0xb''" "''0xa''" 1000 1 None None]
  by simp

section \<open>Status normalisation in the request executor\<close>

lemma normalize_status_range: "100 \<le> normalize_status s \<and> normalize_status s < 600"
  by (simp add: normalize_status_def)

lemma make_request_responds:
  "http env (mk_request url params method body) = Responds response \<Longrightarrow>
   snd (make_request env url params method body) = read_response env response"
  by (simp add: make_request_def)

lemma read_response_error_status:
  assumes "resp_raise_for_status response = Some e"
      and "read_response env response = Inl (ClientResponseError c)"
  shows "cre_status c = normalize_status (cre_status e)"
  using assms
  by (auto simp: read_response_def proxied_error_def Let_def
      split: if_splits sum.splits json.splits)

lemma read_response_error_raised:
  assumes "resp_raise_for_status response = Some e"
      and "resp_data response \<noteq> []"
      and "ujson_loads env (resp_data response) = Inr (JObj d)"
  shows "read_response env response =
           Inl (ClientResponseError
                  \<lparr>cre_request_info = cre_request_info e, cre_history = cre_history e,
                   cre_status = normalize_status (cre_status e),
                   cre_message =
                     JArr [JObj (AList.update ''source'' (JStr ''proxied Fibrous API'') d)],
                   cre_headers = cre_headers e\<rparr>)"
  using assms by (simp add: read_response_def proxied_error_def)

text \<open>
  Claim C9. When \<^verbatim>\<open>raise_for_status\<close> raises an error with status \<open>s\<close>, every
  \<^verbatim>\<open>ClientResponseError\<close> that \<^verbatim>\<open>_make_request\<close> raises carries the status 500 if \<open>s\<close> is
  outside 100..599 and \<open>s\<close> itself otherwise; and it does raise one, with the parsed body
  (tagged with its source) as message, whenever the body is a JSON object.
\<close>

theorem http_status_normalized:
  assumes "http env (mk_request url params method body) = Responds response"
      and "resp_raise_for_status response = Some e"
  shows "(\<forall>c. snd (make_request env url params method body) = Inl (ClientResponseError c) \<longrightarrow>
            cre_status c = (if 100 \<le> cre_status e \<and> cre_status e < 600 then cre_status e else 500)) \<and>
         (\<forall>d. resp_data response \<noteq> [] \<and> ujson_loads env (resp_data response) = Inr (JObj d) \<longrightarrow>
            (\<exists>c. snd (make_request env url params method body) = Inl (ClientResponseError c) \<and>
                 cre_status c = (if 100 \<le> cre_status e \<and> cre_status e < 600 then cre_status e else 500) \<and>
                 cre_message c =
                   JArr [JObj (AList.update ''source'' (JStr ''proxied Fibrous API'') d)]))"
proof -
  have norm: "normalize_status (cre_status e) =
      (if 100 \<le> cre_status e \<and> cre_status e < 600 then cre_status e else 500)"
    by (simp add: normalize_status_def)
  have req: "snd (make_request env url params method body) = read_response env response"
    using assms(1) by (rule make_request_responds)
  show ?thesis
  proof (intro conjI allI impI)
    fix c
    assume "snd (make_request env url params method body) = Inl (ClientResponseError c)"
    then have "read_response env response = Inl (ClientResponseError c)"
      by (simp add: req)
    from read_response_error_status [OF assms(2) this] norm
    show "cre_status c = (if 100 \<le> cre_status e \<and> cre_status e < 600 then cre_status e else 500)"
      by simp
  next
    fix d
    assume "resp_data response \<noteq> [] \<and> ujson_loads env (resp_data response) = Inr (JObj d)"
    then have "read_response env response =
        Inl (ClientResponseError
               \<lparr>cre_request_info = cre_request_info e, cre_history = cre_history e,
                cre_status = normalize_status (cre_status e),
                cre_message =
                  JArr [JObj (AList.update ''source'' (JStr ''proxied Fibrous API'') d)],
                cre_headers = cre_headers e\<rparr>)"
      using read_response_error_raised [OF assms(2)] by blast
    then show "\<exists>c. snd (make_request env url params method body) = Inl (ClientResponseError c) \<and>
        cre_status c = (if 100 \<le> cre_status e \<and> cre_status e < 600 then cre_status e else 500) \<and>
        cre_message c = JArr [JObj (AList.update ''source'' (JStr ''proxied Fibrous API'') d)]"
      by (simp add: req norm)
  qed
qed

theorem http_status_normalized_witness:
  "\<exists>c. snd (make_request (sample_env (http_failed 0) (Inr (JObj [(''error'', JStr ''down'')])))
             ''https://api.fibrous.finance/base/route'' None ''GET'' None)
          = Inl (ClientResponseError c) \<and>
       cre_status c = 500 \<and>
       cre_message c =
         JArr [JObj [(''error'', JStr ''down''), (''source'', JStr ''proxied Fibrous API'')]]"
proof -
  let ?e = "\<lparr>cre_request_info = ''info'', cre_history = '''', cre_status = 0,
             cre_message = JStr ''Error'', cre_headers = ''''\<rparr>"
  let ?r = "\<lparr>resp_data = ''body'', resp_raise_for_status = Some ?e\<rparr>"
  let ?env = "sample_env (http_failed 0) (Inr (JObj [(''error'', JStr ''down'')]))"
  have h1: "http ?env (mk_request ''https://api.fibrous.finance/base/route'' None ''GET'' None)
              = Responds ?r"
    by (simp add: sample_env_def http_failed_def)
  have h2: "resp_raise_for_status ?r = Some ?e"
    by simp
  have h3: "resp_data ?r \<noteq> [] \<and>
            ujson_loads ?env (resp_data ?r) = Inr (JObj [(''error'', JStr ''down'')])"
    by (simp add: sample_env_def)
  from http_status_normalized [OF h1 h2] h3 show ?thesis
    by simp
qed

section \<open>The pattern table of the classifier\<close>







lemma match_fibrous_errors:
  "match_error FIBROUS_ERRORS msg =
     (if py_in ''insufficient liquidity'' (py_lower msg) then InsufficientLiquidityError
      else if py_in ''insufficient balance'' (py_lower msg) then InsufficientLiquidityError
      else if py_in ''cannot estimate'' (py_lower msg) then EstimationError
      else if py_in ''no route found'' (py_lower msg) then InsufficientLiquidityError
      else AggregationProviderError)"
  by (simp add: FIBROUS_ERRORS_def py_lower_def lower_char_def)




section \<open>The health check\<close>














section \<open>Evaluating floats and the sample environment\<close>

lemmas float_outer = float_of_int_def float_is_inf_def float_of_digits_def nat_of_digits_def
  digit_val_def float_mul_def float_div_def mag_num_def mag_den_def float_neg_def
  float_is_zero_def signed_zero_def signed_inf_def int_of_float_def float_gt_zero_def
  float_truthy_def

lemmas float_inner = signed_ratio_def round_ratio_def ilog2_frac_def rne_div_def Let_def

lemma float_of_int_million: "float_of_int 1000000 = Some (Fin 8589934592000000 (- 33))"
  by (simp add: float_outer float_inner)

lemma float_of_digits_two_million:
  "float_of_digits ''2000000'' = Fin 8589934592000000 (- 32)"
  by (simp add: float_outer float_inner)

lemma float_div_two:
  "float_div (Fin 8589934592000000 (- 32)) (Fin 8589934592000000 (- 33))
     = Some (Fin 4503599627370496 (- 51))"
  by (simp add: float_outer) (simp add: float_inner)

lemma sample_calc_price:
  "calc_price env 1000000 (JStr ''2000000'') = Inr (JFloat (Fin 4503599627370496 (- 51)))"
  by (simp add: calc_price_def py_float_def is_digit_def float_of_int_million
      float_of_digits_two_million float_div_two float_gt_zero_def)

lemma sample_env_fields:
  "NATIVE_TOKEN_ADDRESS (sample_env outcome parsed) = ''0xeeeeeeeeeeeeeeeeeeeeeeeeeeeeeeeeeeeeeeee''"
  "PROVIDER_NAME (sample_env outcome parsed) = ''Fibrous''"
  "http (sample_env outcome parsed) req = outcome"
  "ujson_loads (sample_env outcome parsed) data = parsed"
  "base_handle_exception (sample_env outcome parsed) e kwargs = None"
  "str_exception (sample_env outcome parsed) e = class_name e"
  "float_of_other_str (sample_env outcome parsed) s = None"
  "repr_finite (sample_env outcome parsed) q = ''float''"
  "repr_container (sample_env outcome parsed) v = ''container''"
  by (simp_all add: sample_env_def)


section \<open>The price lookup\<close>

lemma get_swap_price_returns:
  assumes "snd (get_swap_price env buy_token sell_token sell_amount chain_id gas_price
                  slippage_percentage) = Inr res"
  shows "\<exists>api_base s response.
           get_api_base_url chain_id = Inr api_base \<and>
           slippage_param slippage_percentage = Inr s \<and>
           snd (make_request env (api_base @ ''/route'')
                  (Some (with_slippage (price_query sell_token buy_token sell_amount) s))
                  ''GET'' None) = Inr response \<and>
           price_of_response env sell_token sell_amount gas_price response = Inr res"
  using assms
  by (auto simp: get_swap_price_def Let_def split: sum.splits prod.splits)

lemma price_of_response_value:
  assumes "price_of_response env sell_token sell_amount gas_price response = Inr res"
  shows "pr_value res =
           (if py_lower sell_token = NATIVE_TOKEN_ADDRESS env then str_int sell_amount
            else ''0'')"
  using assms
  by (auto simp: price_of_response_def Let_def split: json.splits sum.splits)

lemma sample_get_swap_price:
  "snd (get_swap_price (sample_env http_ok (Inr response)) buy_token sell_token sell_amount
          8453 gas_price None) =
     (case price_of_response (sample_env http_ok (Inr response)) sell_token sell_amount
             gas_price response of
        Inl e \<Rightarrow>
          Inl (price_transform_failed (sample_env http_ok (Inr response)) response
                 (FIBROUS_API_BASE @ ''/route'')
                 (price_query sell_token buy_token sell_amount) 8453 e)
      | Inr res \<Rightarrow> Inr res)"
  by (simp add: get_swap_price_def get_api_base_url_cases slippage_param_def with_slippage_def
      make_request_def sample_env_fields http_ok_def read_response_def Let_def
      split: sum.splits)

lemma sample_price_response:
  "snd (get_swap_price (sample_env http_ok (Inr sample_body)) ''0xB''
          ''0xEeeeeEeeeEeEeeEeEeEeeEEEeeeeEeeeeeeeEEeE'' 1000000 8453 None None) =
     Inr \<lparr>pr_provider = ''Fibrous'',
          pr_sources = [\<lparr>src_name = JStr ''UniV3'', src_proportion = JInt 100\<rparr>],
          pr_buy_amount = ''2000000'', pr_gas = ''150000'', pr_sell_amount = ''1000000'',
          pr_gas_price = ''0'',
          pr_value = ''1000000'',
          pr_price = ''float'',
          pr_allowance_target = None\<rparr>"
  by (simp add: sample_get_swap_price price_of_response_def sample_body_def dict_get_def
      sample_calc_price route_sources_def py_truthy_def py_str_def str_float_def
      str_gas_price_def str_int_def py_lower_def lower_char_def sample_env_fields)

text \<open>
  Claim C4. The configuration is a parameter of the model; with the sentinel address
  held in lower case there, every price response has \<^verbatim>\<open>value\<close> equal to
  \<^verbatim>\<open>str(sell_amount)\<close> when \<^verbatim>\<open>sell_token\<close> matches the sentinel up to case, and equal
  to \<^verbatim>\<open>"0"\<close> otherwise.
\<close>

theorem native_token_value:
  assumes "NATIVE_TOKEN_ADDRESS env = py_lower (NATIVE_TOKEN_ADDRESS env)"
      and "snd (get_swap_price env buy_token sell_token sell_amount chain_id gas_price
                  slippage_percentage) = Inr res"
  shows "pr_value res =
           (if py_lower sell_token = py_lower (NATIVE_TOKEN_ADDRESS env)
            then str_int sell_amount else ''0'')"
proof -
  from assms(2) obtain response
    where "price_of_response env sell_token sell_amount gas_price response = Inr res"
    using get_swap_price_returns by blast
  then have "pr_value res =
      (if py_lower sell_token = NATIVE_TOKEN_ADDRESS env then str_int sell_amount else ''0'')"
    by (rule price_of_response_value)
  with assms(1) show ?thesis by simp
qed


theorem native_token_value_witness:
  "\<exists>res. snd (get_swap_price (sample_env http_ok (Inr sample_body)) ''0xB''
                ''0xEeeeeEeeeEeEeeEeEeEeeEEEeeeeEeeeeeeeEEeE'' 1000000 8453 None None)
             = Inr res \<and>
         pr_value res = ''1000000''"
proof -
  let ?env = "sample_env http_ok (Inr sample_body)"
  have native: "NATIVE_TOKEN_ADDRESS ?env = py_lower (NATIVE_TOKEN_ADDRESS ?env)"
    by (simp add: sample_env_fields py_lower_def lower_char_def)
  have same: "py_lower ''0xEeeeeEeeeEeEeeEeEeEeeEEEeeeeEeeeeeeeEEeE''
                = py_lower (NATIVE_TOKEN_ADDRESS ?env)"
    by (simp add: sample_env_fields py_lower_def lower_char_def)
  have "str_int 1000000 = ''1000000''"
    by (simp add: str_int_def)
  with native_token_value [OF native sample_price_response] same sample_price_response
  show ?thesis by simp
qed

section \<open>Slippage in basis points\<close>

lemma floor_div_pow2:
  "\<lfloor>rat_of_int m / 2 ^ k\<rfloor> = m div 2 ^ k"
proof -
  have "rat_of_int m / 2 ^ k = rat_of_int m / rat_of_int (2 ^ k)"
    by simp
  then show ?thesis
    by (simp only: floor_divide_of_int_eq)
qed

lemma ceiling_div_pow2:
  "\<lceil>rat_of_int m / 2 ^ k\<rceil> = - ((- m) div 2 ^ k)"
proof -
  have "\<lceil>rat_of_int m / 2 ^ k\<rceil> = - \<lfloor>rat_of_int (- m) / 2 ^ k\<rfloor>"
    by (simp add: ceiling_def)
  then show ?thesis
    by (simp only: floor_div_pow2)
qed

lemma int_of_float_truncates:
  "int_of_float (Fin m e) =
     IntOk (if 0 \<le> m then \<lfloor>rat_of_int m * 2 powi e\<rfloor> else \<lceil>rat_of_int m * 2 powi e\<rceil>)"
proof (cases "0 \<le> e")
  case True
  then have "rat_of_int m * 2 powi e = rat_of_int (m * 2 ^ nat e)"
    by (simp add: power_int_def)
  then have "\<lfloor>rat_of_int m * 2 powi e\<rfloor> = m * 2 ^ nat e"
    and "\<lceil>rat_of_int m * 2 powi e\<rceil> = m * 2 ^ nat e"
    by (simp_all only: floor_of_int ceiling_of_int)
  with True show ?thesis
    by (simp add: int_of_float_def)
next
  case False
  then have v: "rat_of_int m * 2 powi e = rat_of_int m / 2 ^ nat (- e)"
    by (simp add: power_int_def field_simps)
  from False show ?thesis
    by (simp add: int_of_float_def v floor_div_pow2 ceiling_div_pow2)
qed

lemma slippage_param_falsy:
  "slippage_param None = Inr None"
  "slippage_param (Some (Fin 0 e)) = Inr None"
  "slippage_param (Some NegZero) = Inr None"
  by (simp_all add: slippage_param_def float_truthy_def)

lemma slippage_param_finite:
  assumes "m \<noteq> 0" and "float_mul (Fin m e) (Fin 10000 0) = Fin m' e'"
  shows "slippage_param (Some (Fin m e)) =
           Inr (Some (JInt (if 0 \<le> m' then \<lfloor>rat_of_int m' * 2 powi e'\<rfloor>
                            else \<lceil>rat_of_int m' * 2 powi e'\<rceil>)))"
  using assms
  by (simp add: slippage_param_def float_truthy_def int_of_float_truncates)

lemma with_slippage_lookup:
  "map_of query ''slippage'' = None \<Longrightarrow> map_of (with_slippage query s) ''slippage'' = s"
  by (cases s) (simp_all add: with_slippage_def update_conv')

lemma price_request_sent:
  assumes "get_api_base_url chain_id = Inr api_base"
      and "slippage_param slippage_percentage = Inr s"
  shows "\<exists>req query.
           fst (get_swap_price env buy_token sell_token sell_amount chain_id gas_price
                  slippage_percentage) = [req] \<and>
           req_url req = api_base @ ''/route'' \<and>
           req_params req = Some query \<and>
           map_of query ''slippage'' = s"
proof -
  let ?query = "with_slippage (price_query sell_token buy_token sell_amount) s"
  have "map_of ?query ''slippage'' = s"
    by (rule with_slippage_lookup) (simp add: price_query_def)
  moreover have "fst (get_swap_price env buy_token sell_token sell_amount chain_id gas_price
                  slippage_percentage)
          = [mk_request (api_base @ ''/route'') (Some ?query) ''GET'' None]"
    using assms
    by (simp add: get_swap_price_def Let_def make_request_def split: sum.splits prod.splits)
  ultimately show ?thesis
    by (simp add: mk_request_def)
qed

lemma quote_request_sent:
  assumes "get_api_base_url chain_id = Inr api_base"
      and "slippage_param slippage_percentage = Inr s"
      and "taker \<noteq> []"
  shows "\<exists>req query.
           fst (get_swap_quote env buy_token sell_token sell_amount chain_id (Some taker)
                  gas_price slippage_percentage) = [req] \<and>
           req_url req = api_base @ ''/calldata'' \<and>
           req_params req = Some query \<and>
           map_of query ''slippage'' = s"
proof -
  let ?query = "with_slippage (quote_query sell_token buy_token sell_amount taker) s"
  have "map_of ?query ''slippage'' = s"
    by (rule with_slippage_lookup) (simp add: quote_query_def)
  moreover have "fst (get_swap_quote env buy_token sell_token sell_amount chain_id (Some taker)
                  gas_price slippage_percentage)
          = [mk_request (api_base @ ''/calldata'') (Some ?query) ''GET'' None]"
    using assms
    by (simp add: get_swap_quote_def quote_lookup_def Let_def make_request_def
        split: sum.splits prod.splits)
  ultimately show ?thesis
    by (simp add: mk_request_def)
qed


text \<open>
  Claim C6, as the code has it. No \<^verbatim>\<open>slippage\<close> entry is added to the query when
  \<^verbatim>\<open>slippage_percentage\<close> is omitted or zero. For a finite non-zero value whose float
  product with 10000 is finite, the entry is that product truncated towards zero; the
  product is the binary64 product, rounded to the nearest float before truncation. The
  request that \<^verbatim>\<open>get_swap_price\<close> and \<^verbatim>\<open>get_swap_quote\<close> send carries exactly that entry,
  or none.
\<close>

theorem slippage_basis_points:
  "slippage_param None = Inr None \<and>
   slippage_param (Some (Fin 0 e)) = Inr None \<and>
   slippage_param (Some NegZero) = Inr None \<and>
   (m \<noteq> 0 \<and> float_mul (Fin m e) (Fin 10000 0) = Fin m' e' \<longrightarrow>
      slippage_param (Some (Fin m e)) =
        Inr (Some (JInt (if 0 \<le> m' then \<lfloor>rat_of_int m' * 2 powi e'\<rfloor>
                         else \<lceil>rat_of_int m' * 2 powi e'\<rceil>)))) \<and>
   (\<forall>api_base s.
      get_api_base_url chain_id = Inr api_base \<and>
      slippage_param slippage_percentage = Inr s \<longrightarrow>
      (\<exists>req query.
         fst (get_swap_price env buy_token sell_token sell_amount chain_id gas_price
                slippage_percentage) = [req] \<and>
         req_url req = api_base @ ''/route'' \<and>
         req_params req = Some query \<and>
         map_of query ''slippage'' = s)) \<and>
   (\<forall>api_base s taker.
      get_api_base_url chain_id = Inr api_base \<and>
      slippage_param slippage_percentage = Inr s \<and> taker \<noteq> [] \<longrightarrow>
      (\<exists>req query.
         fst (get_swap_quote env buy_token sell_token sell_amount chain_id (Some taker)
                gas_price slippage_percentage) = [req] \<and>
         req_url req = api_base @ ''/calldata'' \<and>
         req_params req = Some query \<and>
         map_of query ''slippage'' = s))"
proof (intro conjI allI impI)
  show "slippage_param None = Inr None"
    and "slippage_param (Some (Fin 0 e)) = Inr None"
    and "slippage_param (Some NegZero) = Inr None"
    by (rule slippage_param_falsy)+
next
  assume "m \<noteq> 0 \<and> float_mul (Fin m e) (Fin 10000 0) = Fin m' e'"
  then show "slippage_param (Some (Fin m e)) =
      Inr (Some (JInt (if 0 \<le> m' then \<lfloor>rat_of_int m' * 2 powi e'\<rfloor>
                       else \<lceil>rat_of_int m' * 2 powi e'\<rceil>)))"
    by (simp add: slippage_param_finite)
next
  fix api_base s
  assume "get_api_base_url chain_id = Inr api_base \<and>
          slippage_param slippage_percentage = Inr s"
  then have "get_api_base_url chain_id = Inr api_base"
    and "slippage_param slippage_percentage = Inr s"
    by simp_all
  then show "\<exists>req query.
      fst (get_swap_price env buy_token sell_token sell_amount chain_id gas_price
             slippage_percentage) = [req] \<and>
      req_url req = api_base @ ''/route'' \<and>
      req_params req = Some query \<and>
      map_of query ''slippage'' = s"
    by (rule price_request_sent)
next
  fix api_base s and taker :: string
  assume "get_api_base_url chain_id = Inr api_base \<and>
          slippage_param slippage_percentage = Inr s \<and> taker \<noteq> []"
  then have "get_api_base_url chain_id = Inr api_base"
    and "slippage_param slippage_percentage = Inr s" and "taker \<noteq> []"
    by simp_all
  then show "\<exists>req query.
      fst (get_swap_quote env buy_token sell_token sell_amount chain_id (Some taker)
             gas_price slippage_percentage) = [req] \<and>
      req_url req = api_base @ ''/calldata'' \<and>
      req_params req = Some query \<and>
      map_of query ''slippage'' = s"
    by (rule quote_request_sent)
qed

lemma float_literal_0_015: "signed_ratio False 15 1000 = Fin 8646911284551352 (- 59)"
  by (simp add: float_inner)

lemma float_mul_0_015:
  "float_mul (Fin 8646911284551352 (- 59)) (Fin 10000 0) = Fin 5277655813324800 (- 45)"
  by (simp add: float_outer) (simp add: float_inner)

lemma float_literal_0_0029: "signed_ratio False 29 10000 = Fin 6686944726719712 (- 61)"
  by (simp add: float_inner)

lemma float_mul_0_0029:
  "float_mul (Fin 6686944726719712 (- 61)) (Fin 10000 0) = Fin 8162774324609023 (- 48)"
  by (simp add: float_outer) (simp add: float_inner)

theorem slippage_basis_points_witness:
  "signed_ratio False 15 1000 = Fin 8646911284551352 (- 59) \<and>
   slippage_param (Some (Fin 8646911284551352 (- 59))) = Inr (Some (JInt 150)) \<and>
   signed_ratio False 29 10000 = Fin 6686944726719712 (- 61) \<and>
   slippage_param (Some (Fin 6686944726719712 (- 61))) = Inr (Some (JInt 28)) \<and>
   (\<exists>req query.
      fst (get_swap_price (sample_env http_ok (Inr sample_body)) ''0xB'' ''0xA'' 1000000 8453
             None (Some (Fin 8646911284551352 (- 59)))) = [req] \<and>
      req_params req = Some query \<and>
      map_of query ''slippage'' = Some (JInt 150))"
proof -
  let ?x = "Fin 8646911284551352 (- 59)"
  let ?y = "Fin 6686944726719712 (- 61)"
  let ?env = "sample_env http_ok (Inr sample_body)"
  have i1: "int_of_float (Fin 5277655813324800 (- 45)) = IntOk 150"
    by (simp add: int_of_float_def)
  then have t1: "(if (0::int) \<le> 5277655813324800
                  then \<lfloor>rat_of_int 5277655813324800 * 2 powi (- 45)\<rfloor>
                  else \<lceil>rat_of_int 5277655813324800 * 2 powi (- 45)\<rceil>) = 150"
    by (simp only: int_of_float_truncates int_of_float_result.inject)
  have i2: "int_of_float (Fin 8162774324609023 (- 48)) = IntOk 28"
    by (simp add: int_of_float_def)
  then have t2: "(if (0::int) \<le> 8162774324609023
                  then \<lfloor>rat_of_int 8162774324609023 * 2 powi (- 48)\<rfloor>
                  else \<lceil>rat_of_int 8162774324609023 * 2 powi (- 48)\<rceil>) = 28"
    by (simp only: int_of_float_truncates int_of_float_result.inject)
  have n1: "(8646911284551352 :: int) \<noteq> 0 \<and>
            float_mul ?x (Fin 10000 0) = Fin 5277655813324800 (- 45)"
    by (simp add: float_mul_0_015)
  have n2: "(6686944726719712 :: int) \<noteq> 0 \<and>
            float_mul ?y (Fin 10000 0) = Fin 8162774324609023 (- 48)"
    by (simp add: float_mul_0_0029)
  note thm1 = slippage_basis_points [where m = 8646911284551352 and e = "- 59"
      and m' = 5277655813324800 and e' = "- 45" and chain_id = 8453
      and slippage_percentage = "Some ?x" and env = ?env and buy_token = "''0xB''"
      and sell_token = "''0xA''" and sell_amount = 1000000 and gas_price = None]
  note thm2 = slippage_basis_points [where m = 6686944726719712 and e = "- 61"
      and m' = 8162774324609023 and e' = "- 48"]
  from thm1 n1 have "slippage_param (Some ?x) =
      Inr (Some (JInt (if (0::int) \<le> 5277655813324800
                       then \<lfloor>rat_of_int 5277655813324800 * 2 powi (- 45)\<rfloor>
                       else \<lceil>rat_of_int 5277655813324800 * 2 powi (- 45)\<rceil>)))"
    by blast
  then have s1: "slippage_param (Some ?x) = Inr (Some (JInt 150))"
    by (simp only: t1)
  from thm2 n2 have "slippage_param (Some ?y) =
      Inr (Some (JInt (if (0::int) \<le> 8162774324609023
                       then \<lfloor>rat_of_int 8162774324609023 * 2 powi (- 48)\<rfloor>
                       else \<lceil>rat_of_int 8162774324609023 * 2 powi (- 48)\<rceil>)))"
    by blast
  then have s2: "slippage_param (Some ?y) = Inr (Some (JInt 28))"
    by (simp only: t2)
  have u: "get_api_base_url 8453 = Inr FIBROUS_API_BASE \<and>
           slippage_param (Some ?x) = Inr (Some (JInt 150))"
    by (simp add: get_api_base_url_cases s1)
  from thm1 have "\<forall>api_base s.
      get_api_base_url 8453 = Inr api_base \<and> slippage_param (Some ?x) = Inr s \<longrightarrow>
      (\<exists>req query.
         fst (get_swap_price ?env ''0xB'' ''0xA'' 1000000 8453 None (Some ?x)) = [req] \<and>
         req_url req = api_base @ ''/route'' \<and>
         req_params req = Some query \<and>
         map_of query ''slippage'' = s)"
    by (rule conjunct2 [THEN conjunct2, THEN conjunct2, THEN conjunct2, THEN conjunct1])
  with u have "\<exists>req query.
      fst (get_swap_price ?env ''0xB'' ''0xA'' 1000000 8453 None (Some ?x)) = [req] \<and>
      req_url req = FIBROUS_API_BASE @ ''/route'' \<and>
      req_params req = Some query \<and>
      map_of query ''slippage'' = Some (JInt 150)"
    by blast
  then have r: "\<exists>req query.
      fst (get_swap_price ?env ''0xB'' ''0xA'' 1000000 8453 None (Some ?x)) = [req] \<and>
      req_params req = Some query \<and>
      map_of query ''slippage'' = Some (JInt 150)"
    by blast
  show ?thesis
    by (intro conjI float_literal_0_015 float_literal_0_0029 s1 s2 r)
qed

text \<open>
  Claim C6 as stated fails for the float NaN: it is truthy, its product with 10000 is
  NaN, and \<^verbatim>\<open>int\<close> raises \<^verbatim>\<open>ValueError\<close>; no request is sent and no basis points are
  computed.
\<close>

theorem slippage_nan_raises:
  "get_swap_price (sample_env http_ok (Inr sample_body)) ''0xB'' ''0xA'' 1000000 8453 None
     (Some NaN)
     = ([], Inl (ValueError ''cannot convert float NaN to integer''))"
  by (simp add: get_swap_price_def get_api_base_url_cases slippage_param_def float_truthy_def
      float_mul_def int_of_float_def)

section \<open>Failures of the price lookup\<close>

lemma match_error_range:
  "match_error FIBROUS_ERRORS msg = AggregationProviderError \<or>
   match_error FIBROUS_ERRORS msg = InsufficientLiquidityError \<or>
   match_error FIBROUS_ERRORS msg = EstimationError"
  by (simp add: match_fibrous_errors)

lemma get_swap_price_request_failed:
  assumes "get_api_base_url chain_id = Inr api_base"
      and "slippage_param slippage_percentage = Inr s"
      and "snd (make_request env (api_base @ ''/route'')
                  (Some (with_slippage (price_query sell_token buy_token sell_amount) s))
                  ''GET'' None) = Inl e"
  shows "snd (get_swap_price env buy_token sell_token sell_amount chain_id gas_price
                slippage_percentage)
           = Inl (price_request_failed env sell_token chain_id
                    (with_slippage (price_query sell_token buy_token sell_amount) s) e)"
  using assms
  by (cases "make_request env (api_base @ ''/route'')
               (Some (with_slippage (price_query sell_token buy_token sell_amount) s))
               ''GET'' None")
     (simp add: get_swap_price_def Let_def)

lemma raise_handled_shared:
  "base_handle_exception env e kwargs = Some shared \<Longrightarrow>
   raise_handled env e kwargs = ProviderError shared"
  by (simp add: raise_handled_def handle_exception_def)

lemma raise_handled_specific:
  assumes "base_handle_exception env e kwargs = None"
      and "extract_msg env e = Inr (JStr m)"
      and "map_of kwargs ''url'' = None"
  shows "raise_handled env e kwargs =
           ProviderError \<lparr>err_class = match_error FIBROUS_ERRORS m,
                          err_provider = PROVIDER_NAME env,
                          err_message = m,
                          err_url = JStr '''',
                          err_kwargs = kwargs\<rparr>"
  using assms
  by (simp add: raise_handled_def handle_exception_def classify_msg_def dict_get_def)

lemma extract_msg_transport:
  "extract_msg env TimeoutError = Inr (JStr (str_exception env TimeoutError))"
  "extract_msg env (ServerDisconnectedError t)
     = Inr (JStr (str_exception env (ServerDisconnectedError t)))"
  by (simp_all add: extract_msg_def)

text \<open>
  Claim C2, as the code has it. When the request of \<^verbatim>\<open>get_swap_price\<close> fails with a
  timeout, a server disconnect or a \<^verbatim>\<open>ClientResponseError\<close> whose extracted message is a
  string, the caller gets an error object of the classifier: the one the shared
  classifier returns when it recognises the failure, otherwise one whose class is found
  by the pattern table (insufficient liquidity, estimation or the generic class) and
  whose message is the extracted one.
\<close>

theorem transport_failures_classified:
  assumes "get_api_base_url chain_id = Inr api_base"
      and "slippage_param slippage_percentage = Inr s"
      and "query = with_slippage (price_query sell_token buy_token sell_amount) s"
      and "kwargs = [(''params'', JObj query), (''token_address'', JStr sell_token),
                     (''chain_id'', JInt chain_id)]"
      and "snd (make_request env (api_base @ ''/route'') (Some query) ''GET'' None) = Inl e"
      and "e = TimeoutError \<or> (\<exists>t. e = ServerDisconnectedError t) \<or>
           (\<exists>c m. e = ClientResponseError c \<and> extract_msg env e = Inr (JStr m))"
  shows "\<exists>exc.
           snd (get_swap_price env buy_token sell_token sell_amount chain_id gas_price
                  slippage_percentage) = Inl (ProviderError exc) \<and>
           (case base_handle_exception env e kwargs of
              Some shared \<Rightarrow> exc = shared
            | None \<Rightarrow>
                extract_msg env e = Inr (JStr (err_message exc)) \<and>
                err_class exc = match_error FIBROUS_ERRORS (err_message exc) \<and>
                (err_class exc = AggregationProviderError \<or>
                 err_class exc = InsufficientLiquidityError \<or>
                 err_class exc = EstimationError))"
proof -
  from assms(6) have caught: "caught_transport e"
    by (auto simp: caught_transport_def)
  from assms(6) obtain m where msg: "extract_msg env e = Inr (JStr m)"
    by (auto simp: extract_msg_transport)
  have url: "map_of kwargs ''url'' = None"
    by (simp add: assms(4))
  have raised: "snd (get_swap_price env buy_token sell_token sell_amount chain_id gas_price
                  slippage_percentage) = Inl (raise_handled env e kwargs)"
    using get_swap_price_request_failed [OF assms(1,2) assms(5) [unfolded assms(3)]] caught
    by (simp add: price_request_failed_def assms(3,4))
  show ?thesis
  proof (cases "base_handle_exception env e kwargs")
    case (Some shared)
    with raised show ?thesis
      by (simp add: raise_handled_shared)
  next
    case None
    from raise_handled_specific [OF None msg url] raised msg None match_error_range [of m]
    show ?thesis by simp
  qed
qed

lemma sample_failed_request:
  "snd (make_request (sample_env (http_failed 503) (Inr (JObj [(''error'', JStr ''No route found'')])))
          url params ''GET'' None)
     = Inl (ClientResponseError
              \<lparr>cre_request_info = ''info'', cre_history = '''', cre_status = 503,
               cre_message = JArr [JObj [(''error'', JStr ''No route found''),
                                         (''source'', JStr ''proxied Fibrous API'')]],
               cre_headers = ''''\<rparr>)"
  by (simp add: make_request_def sample_env_fields http_failed_def read_response_def
      proxied_error_def normalize_status_def)

theorem transport_failures_classified_witness:
  "\<exists>exc. snd (get_swap_price
                (sample_env (http_failed 503) (Inr (JObj [(''error'', JStr ''No route found'')])))
                ''0xB'' ''0xA'' 1000000 8453 None None) = Inl (ProviderError exc) \<and>
         err_class exc = InsufficientLiquidityError \<and>
         err_message exc = ''No route found''"
proof -
  let ?env = "sample_env (http_failed 503) (Inr (JObj [(''error'', JStr ''No route found'')]))"
  let ?c = "\<lparr>cre_request_info = ''info'', cre_history = '''', cre_status = 503,
             cre_message = JArr [JObj [(''error'', JStr ''No route found''),
                                       (''source'', JStr ''proxied Fibrous API'')]],
             cre_headers = ''''\<rparr>"
  let ?query = "with_slippage (price_query ''0xA'' ''0xB'' 1000000) None"
  let ?kwargs = "[(''params'', JObj ?query), (''token_address'', JStr ''0xA''),
                  (''chain_id'', JInt 8453)]"
  have u: "get_api_base_url 8453 = Inr FIBROUS_API_BASE"
    by (simp add: get_api_base_url_cases)
  have sl: "slippage_param None = Inr None"
    by (simp add: slippage_param_def)
  have failed: "snd (make_request ?env (FIBROUS_API_BASE @ ''/route'') (Some ?query) ''GET'' None)
                  = Inl (ClientResponseError ?c)"
    by (rule sample_failed_request)
  have msg: "extract_msg ?env (ClientResponseError ?c) = Inr (JStr ''No route found'')"
    by (simp add: extract_msg_def dict_get_def)
  then have kind: "ClientResponseError ?c = TimeoutError \<or>
      (\<exists>t. ClientResponseError ?c = ServerDisconnectedError t) \<or>
      (\<exists>c m. ClientResponseError ?c = ClientResponseError c \<and>
             extract_msg ?env (ClientResponseError ?c) = Inr (JStr m))"
    by blast
  have base: "base_handle_exception ?env (ClientResponseError ?c) ?kwargs = None"
    by (simp add: sample_env_fields)
  have cls: "match_error FIBROUS_ERRORS ''No route found'' = InsufficientLiquidityError"
    by (simp add: match_fibrous_errors py_lower_def lower_char_def)
  from transport_failures_classified [OF u sl refl refl failed kind, of None]
  obtain exc where
    "snd (get_swap_price ?env ''0xB'' ''0xA'' 1000000 8453 None None) = Inl (ProviderError exc)"
    and "extract_msg ?env (ClientResponseError ?c) = Inr (JStr (err_message exc))"
    and "err_class exc = match_error FIBROUS_ERRORS (err_message exc)"
    by (auto simp: base)
  with msg cls show ?thesis
    by auto
qed

text \<open>
  Claim C2 as stated fails for a body that the JSON parser rejects: the \<^verbatim>\<open>ValueError\<close> of
  the parser is raised inside \<^verbatim>\<open>_make_request\<close>, the first \<^verbatim>\<open>except\<close> clause of
  \<^verbatim>\<open>get_swap_price\<close> does not list it, and the caller gets it as it is, not an error
  object of the classifier.
\<close>

theorem unparseable_body_raises_value_error:
  "snd (get_swap_price (sample_env http_ok (Inl ''Expected object or value'')) ''0xB'' ''0xA''
          1000000 8453 None None)
     = Inl (ValueError ''Expected object or value'')"
  by (simp add: get_swap_price_def get_api_base_url_cases slippage_param_def Let_def
      make_request_def sample_env_fields http_ok_def read_response_def
      price_request_failed_def caught_transport_def)

end
